theory Spec2Isabelle
  imports Main
begin

section \<open>The CHC safety verifier of task\_colab-94 (\<open>main.py\<close>)\<close>

text \<open>
  The module offers one entry point, \<open>verify(source, dialect, timeout=5, learn=False)\<close>,
  which loads a source text, classifies Datalog input with three regular expressions and
  hands SMT-LIB 2 input to the Z3 solver.  The repository holds the module as compiled
  bytecode (\<open>task_colab-94/__pycache__/main.cpython-312.pyc\<close>); the Python quoted below
  is read off its instructions, constants and exception table.

  Python strings are modelled as \<open>string\<close>: one \<open>char\<close> stands for one code point
  below 256.  Exceptions are values: every function that can raise returns
  \<open>exn + 'a\<close>, with \<open>Inl\<close> for the raised exception.
\<close>

subsection \<open>Characters\<close>

text \<open>
  \<open>\s\<close> in a \<open>str\<close> pattern and \<open>str.strip()\<close> use the same test for a whitespace
  character; its members below 256 are listed here.
\<close>

definition is_space :: "char \<Rightarrow> bool" where
  "is_space c \<longleftrightarrow> c \<in> set [CHR 0x09, CHR 0x0A, CHR 0x0B, CHR 0x0C, CHR 0x0D,
     CHR 0x1C, CHR 0x1D, CHR 0x1E, CHR 0x1F, CHR 0x20, CHR 0x85, CHR 0xA0]"

text \<open>The character class \<open>[A-Za-z0-9_!?\-+*/<>=]\<close> shared by the three patterns.\<close>

definition is_name_char :: "char \<Rightarrow> bool" where
  "is_name_char c \<longleftrightarrow> c \<in> set (''ABCDEFGHIJKLMNOPQRSTUVWXYZ'' @ ''abcdefghijklmnopqrstuvwxyz''
     @ ''0123456789'' @ ''_!?-+*/<>='')"

text \<open>\<open>text.strip()\<close>: whitespace removed at both ends.\<close>

definition strip :: "string \<Rightarrow> string" where
  "strip s = rev (dropWhile is_space (rev (dropWhile is_space s)))"

subsection \<open>Regular expressions\<close>

text \<open>
  The pieces the three patterns are built from: a literal, a greedy \<open>*\<close> or \<open>+\<close> over
  a character class, and a greedy optional character.  A match of a piece is described by
  the input left after it; all ways of matching are listed in the order in which the
  backtracking matcher of \<open>re\<close> tries them (longest first for the greedy operators).
\<close>

datatype rx = Lit string | Star "char \<Rightarrow> bool" | Plus "char \<Rightarrow> bool" | Opt char

fun rx_star :: "(char \<Rightarrow> bool) \<Rightarrow> string \<Rightarrow> string list" where
  "rx_star p [] = [[]]"
| "rx_star p (c # cs) = (if p c then rx_star p cs @ [c # cs] else [c # cs])"

fun rx_lit :: "string \<Rightarrow> string \<Rightarrow> string list" where
  "rx_lit [] s = [s]"
| "rx_lit (l # ls) [] = []"
| "rx_lit (l # ls) (c # cs) = (if l = c then rx_lit ls cs else [])"

fun alts :: "rx \<Rightarrow> string \<Rightarrow> string list" where
  "alts (Lit l) s = rx_lit l s"
| "alts (Star p) s = rx_star p s"
| "alts (Plus p) [] = []"
| "alts (Plus p) (c # cs) = (if p c then rx_star p cs else [])"
| "alts (Opt x) [] = [[]]"
| "alts (Opt x) (c # cs) = (if c = x then [cs, c # cs] else [c # cs])"

fun seq_alts :: "rx list \<Rightarrow> string \<Rightarrow> string list" where
  "seq_alts [] s = [s]"
| "seq_alts (r # rs) s = concat (map (seq_alts rs) (alts r s))"

text \<open>
  A compiled pattern with one capturing group at its end: the pieces before the group,
  and the group.  \<open>match_at\<close> is \<open>Pattern.match\<close> at the start of \<open>s\<close>: the first
  alternative that succeeds, as the captured text and the input left after the match.
\<close>

type_synonym pattern = "rx list \<times> rx"

definition match_at :: "pattern \<Rightarrow> string \<Rightarrow> (string \<times> string) option" where
  "match_at pat s =
     (case concat (map (\<lambda>p. map (\<lambda>e. (take (length p - length e) p, e)) (alts (snd pat) p))
                       (seq_alts (fst pat) s)) of
        [] \<Rightarrow> None
      | m # _ \<Rightarrow> Some m)"

text \<open>
  \<open>Pattern.findall\<close> for a pattern with one group: the captured texts of the
  non-overlapping matches, scanning from the left.  After a match the scan resumes where
  the match ended; after an empty match it moves on by one character.
\<close>

fun findall :: "pattern \<Rightarrow> string \<Rightarrow> string list" where
  "findall pat [] = (case match_at pat [] of None \<Rightarrow> [] | Some (g, rest) \<Rightarrow> [g])"
| "findall pat (c # cs) =
     (case match_at pat (c # cs) of
        None \<Rightarrow> findall pat cs
      | Some (g, rest) \<Rightarrow>
          if length rest \<le> length cs then g # findall pat rest else g # findall pat cs)"

text \<open>
  \<^verbatim>\<open>_DCL_RE   = re.compile(r"\(\s*declare-rel\s+([A-Za-z0-9_!?\-+*/<>=]+)")\<close>
  \<^verbatim>\<open>_RULE_RE  = re.compile(r"\(\s*rule\s+\(?\s*([A-Za-z0-9_!?\-+*/<>=]+)")\<close>
  \<^verbatim>\<open>_QUERY_RE = re.compile(r"\(\s*query\s+([A-Za-z0-9_!?\-+*/<>=]+)")\<close>
\<close>

definition DCL_RE :: pattern where
  "DCL_RE = ([Lit ''('', Star is_space, Lit ''declare-rel'', Plus is_space], Plus is_name_char)"

definition RULE_RE :: pattern where
  "RULE_RE = ([Lit ''('', Star is_space, Lit ''rule'', Plus is_space, Opt CHR ''('', Star is_space],
              Plus is_name_char)"

definition QUERY_RE :: pattern where
  "QUERY_RE = ([Lit ''('', Star is_space, Lit ''query'', Plus is_space], Plus is_name_char)"

subsection \<open>Exceptions, results and collaborators\<close>

text \<open>
  The exception classes the module names, and one constructor for every other class
  (carrying the class name).  \<open>OSError\<close> and \<open>Z3Exception\<close> stand for the class with
  its subclasses, which is what an \<open>except\<close> clause matches; \<open>ValueError\<close> carries the
  message that \<open>verify\<close> gives it.
\<close>

datatype exn = ValueError string | OSError | Z3Exception | OtherException string

text \<open>The dictionary \<open>{"status": ..., "model": ..., "learned": ...}\<close> that \<open>verify\<close> returns.\<close>

record result =
  status :: string
  model :: "string option"
  learned :: "string list"

text \<open>
  The file system as \<open>_read_text\<close> sees it: \<open>os.path.isfile(src)\<close>, and
  \<open>open(src, "r", encoding="utf-8").read()\<close>, which returns the text or raises.
\<close>

record fs =
  isfile :: "string \<Rightarrow> bool"
  read_utf8 :: "string \<Rightarrow> exn + string"

text \<open>
  The solver library.  A solver object is a value of type \<open>'s\<close>, passed on by every
  call that may change it: \<open>z3.Solver()\<close>, \<open>solver.set(key, value)\<close>,
  \<open>solver.from_string(text)\<close>, \<open>solver.check()\<close> and \<open>solver.model().sexpr()\<close>.
  Each call returns or raises.
\<close>

datatype check_result = unsat | sat | unknown

record 's z3 =
  Solver :: "exn + 's"
  set_param :: "'s \<Rightarrow> string \<Rightarrow> int \<Rightarrow> exn + 's"
  from_string :: "'s \<Rightarrow> string \<Rightarrow> exn + 's"
  check :: "'s \<Rightarrow> exn + check_result \<times> 's"
  model_sexpr :: "'s \<Rightarrow> exn + string"

subsection \<open>\<open>_read_text\<close>\<close>

text \<open>
  \<^verbatim>\<open>if os.path.isfile(src): return open(src, "r", encoding="utf-8").read()\<close>
  \<^verbatim>\<open>return src\<close>
\<close>

definition read_text :: "fs \<Rightarrow> string \<Rightarrow> exn + string" where
  "read_text f src = (if isfile f src then read_utf8 f src else Inr src)"

subsection \<open>\<open>_datalog_status\<close>\<close>

text \<open>
  \<^verbatim>\<open>
  def _datalog_status(text):
      decls = set(_DCL_RE.findall(text))
      rules = set(_RULE_RE.findall(text))
      queries = _QUERY_RE.findall(text)
      if not decls or not queries:
          return None
      pred = queries[0]
      if pred not in decls:
          return None
      if pred in rules:
          return {"status": "unsafe",
                  "model": f"(define-fun {pred} () Bool true)",
                  "learned": [f"(define-fun {pred} () Bool true)"]}
      return {"status": "safe", "model": None, "learned": []}
  \<close>
  The declared names and the rule heads are collected as sets, the queried names as a
  list.  The result is \<open>None\<close> for malformed input, else the dictionary for
  \<open>unsafe\<close> (the first queried name is a rule head) or \<open>safe\<close>.
\<close>

definition datalog_status :: "string \<Rightarrow> result option" where
  "datalog_status text =
     (let decls = set (findall DCL_RE text);
          rules = set (findall RULE_RE text);
          queries = findall QUERY_RE text
      in if decls = {} \<or> queries = [] then None
         else let pred = queries ! 0
              in if pred \<notin> decls then None
                 else if pred \<in> rules then
                   Some \<lparr>status = ''unsafe'',
                         model = Some (''(define-fun '' @ pred @ '' () Bool true)''),
                         learned = [''(define-fun '' @ pred @ '' () Bool true)'']\<rparr>
                 else Some \<lparr>status = ''safe'', model = None, learned = []\<rparr>)"

subsection \<open>\<open>verify\<close>\<close>

text \<open>
  \<^verbatim>\<open>
  def verify(source, dialect, timeout=5, learn=False):
      if timeout <= 0:
          raise ValueError("timeout must be positive")
      if dialect not in {"smtlib2", "datalog"}:
          raise ValueError("dialect must be 'smtlib2' or 'datalog'")
      try:
          text = _read_text(source)
      except OSError:
          return {"status": "unknown", "model": None, "learned": []}
      if not text.strip():
          return {"status": "unknown", "model": None, "learned": []}
      if dialect == "datalog":
          datalog_res = _datalog_status(text)
          if datalog_res is None:
              return {"status": "unknown", "model": None, "learned": []}
          if not learn:
              datalog_res["learned"] = []
          return datalog_res
      solver = z3.Solver()
      solver.set("timeout", timeout * 1000)
      try:
          solver.from_string(text)
      except z3.Z3Exception:
          return {"status": "unknown", "model": None, "learned": []}
      chk = solver.check()
      if chk == z3.unsat:
          return {"status": "safe", "model": None, "learned": []}
      if chk == z3.sat:
          mdl_sexpr = solver.model().sexpr()
          learned = [mdl_sexpr] if learn else []
          return {"status": "unsafe", "model": mdl_sexpr, "learned": learned}
      return {"status": "unknown", "model": None, "learned": []}
  \<close>
  The two argument checks come first.  The exception table has two handlers: the one for
  \<open>OSError\<close> covers the call of \<open>_read_text\<close>, the one for \<open>z3.Z3Exception\<close> covers
  the call of \<open>solver.from_string\<close> only.  Both return the \<open>unknown\<close> dictionary.
  \<open>datalog_res["learned"] = []\<close> is the record update.  The timeout is a Python
  integer, hence \<open>int\<close>.
\<close>

definition verify :: "fs \<Rightarrow> 's z3 \<Rightarrow> string \<Rightarrow> string \<Rightarrow> int \<Rightarrow> bool \<Rightarrow> exn + result" where
  "verify f z source dialect timeout learn =
     (if timeout \<le> 0 then Inl (ValueError ''timeout must be positive'')
      else if dialect \<notin> {''smtlib2'', ''datalog''} then
        Inl (ValueError (''dialect must be '' @ [CHR 0x27] @ ''smtlib2'' @ [CHR 0x27] @ '' or ''
                          @ [CHR 0x27] @ ''datalog'' @ [CHR 0x27]))
      else
        case read_text f source of
          Inl e \<Rightarrow>
            if e = OSError then Inr \<lparr>status = ''unknown'', model = None, learned = []\<rparr>
            else Inl e
        | Inr text \<Rightarrow>
            if strip text = [] then Inr \<lparr>status = ''unknown'', model = None, learned = []\<rparr>
            else if dialect = ''datalog'' then
              (case datalog_status text of
                 None \<Rightarrow> Inr \<lparr>status = ''unknown'', model = None, learned = []\<rparr>
               | Some datalog_res \<Rightarrow>
                   Inr (if \<not> learn then datalog_res\<lparr>learned := []\<rparr> else datalog_res))
            else
              (case Solver z of
                 Inl e \<Rightarrow> Inl e
               | Inr solver0 \<Rightarrow>
              (case set_param z solver0 ''timeout'' (timeout * 1000) of
                 Inl e \<Rightarrow> Inl e
               | Inr solver1 \<Rightarrow>
              (case from_string z solver1 text of
                 Inl e \<Rightarrow>
                   if e = Z3Exception
                   then Inr \<lparr>status = ''unknown'', model = None, learned = []\<rparr>
                   else Inl e
               | Inr solver2 \<Rightarrow>
              (case check z solver2 of
                 Inl e \<Rightarrow> Inl e
               | Inr (chk, solver3) \<Rightarrow>
                   if chk = unsat then Inr \<lparr>status = ''safe'', model = None, learned = []\<rparr>
                   else if chk = sat then
                     (case model_sexpr z solver3 of
                        Inl e \<Rightarrow> Inl e
                      | Inr mdl_sexpr \<Rightarrow>
                          Inr \<lparr>status = ''unsafe'', model = Some mdl_sexpr,
                               learned = (if learn then [mdl_sexpr] else [])\<rparr>)
                   else Inr \<lparr>status = ''unknown'', model = None, learned = []\<rparr>)))))"

subsection \<open>Stand-ins for the collaborators\<close>

text \<open>
  Concrete collaborators for running \<open>verify\<close> on examples.  \<open>no_files\<close> is a file
  system without files, so every source is literal text.  \<open>one_file p r\<close> holds the single
  file \<open>p\<close>, whose reading gives \<open>r\<close>.  \<open>fixed_solver r m\<close> is a solver whose state is
  the loaded text; it rejects the text \<open>(\<close> as unparsable, answers every check with \<open>r\<close>
  and renders its model as \<open>m\<close>.
\<close>

definition no_files :: fs where
  "no_files = \<lparr>isfile = (\<lambda>p. False), read_utf8 = (\<lambda>p. Inl OSError)\<rparr>"

definition one_file :: "string \<Rightarrow> exn + string \<Rightarrow> fs" where
  "one_file p r = \<lparr>isfile = (\<lambda>q. q = p), read_utf8 = (\<lambda>q. if q = p then r else Inl OSError)\<rparr>"

definition fixed_solver :: "check_result \<Rightarrow> string \<Rightarrow> string z3" where
  "fixed_solver r m =
     \<lparr>Solver = Inr [],
      set_param = (\<lambda>s k v. Inr s),
      from_string = (\<lambda>s t. if t = ''('' then Inl Z3Exception else Inr t),
      check = (\<lambda>s. Inr (r, s)),
      model_sexpr = (\<lambda>s. Inr m)\<rparr>"

subsection \<open>Counting occurrences\<close>

text \<open>
  The number of positions of a text at which the word \<open>w\<close> starts.  It is used to count
  the \<open>define-fun\<close> assertions in the text of a model.
\<close>

fun occurrences :: "string \<Rightarrow> string \<Rightarrow> nat" where
  "occurrences w [] = 0"
| "occurrences w (c # cs) = (if take (length w) (c # cs) = w then 1 else 0) + occurrences w cs"

subsection \<open>Rule forms in a text\<close>



section \<open>Properties\<close>

subsection \<open>Whitespace and the patterns\<close>

text \<open>\<open>text.strip()\<close> is empty exactly for a text of whitespace characters only.\<close>

lemma strip_Nil_iff: "strip s = [] \<longleftrightarrow> (\<forall>c\<in>set s. is_space c)"
proof (cases "dropWhile is_space s")
  case Nil
  then have "\<forall>c\<in>set s. is_space c" by (metis dropWhile_eq_Nil_conv)
  moreover have "strip s = []" unfolding strip_def Nil by simp
  ultimately show ?thesis by simp
next
  case (Cons y ys)
  then have "\<not> is_space y" using hd_dropWhile[of is_space s] by auto
  moreover have "y \<in> set s" using Cons set_dropWhileD[of y is_space s] by simp
  moreover have "y \<in> set (dropWhile is_space s)" using Cons by simp
  ultimately show ?thesis by (auto simp add: strip_def dropWhile_eq_Nil_conv)
qed

text \<open>
  Each pattern starts with the literal \<open>(\<close>, which is no whitespace character.  So
  none of them matches inside a text of whitespace.
\<close>

lemma paren_not_space: "\<not> is_space CHR ''(''"
  by (simp add: is_space_def)

lemma match_at_space: "is_space c \<Longrightarrow> fst pat = Lit ''('' # rs \<Longrightarrow> match_at pat (c # cs) = None"
  using paren_not_space by (auto simp add: match_at_def)

lemma match_at_Nil: "fst pat = Lit ''('' # rs \<Longrightarrow> match_at pat [] = None"
  by (simp add: match_at_def)

lemma findall_blank: "\<forall>c\<in>set s. is_space c \<Longrightarrow> fst pat = Lit ''('' # rs \<Longrightarrow> findall pat s = []"
  by (induction s) (simp_all add: match_at_space match_at_Nil)

lemma DCL_blank: "strip s = [] \<Longrightarrow> findall DCL_RE s = []"
  by (rule findall_blank[where rs = "[Star is_space, Lit ''declare-rel'', Plus is_space]"])
     (simp_all add: strip_Nil_iff DCL_RE_def)



























subsection \<open>The argument checks\<close>

text \<open>
  Claim C3 says that \<open>verify\<close> raises exactly on a bad timeout or dialect and returns a
  result record for all other arguments.  The second half fails: with a valid timeout and
  dialect, a source that names a file whose bytes are not UTF-8 makes
  \<open>open(...).read()\<close> raise \<open>UnicodeDecodeError\<close>, which \<open>except OSError\<close> does not
  catch, so \<open>verify\<close> raises it.  (In Python \<open>UnicodeDecodeError\<close> is moreover a
  subclass of \<open>ValueError\<close>.)
\<close>

theorem verify_raises_with_valid_arguments:
  "0 < (5::int) \<and> ''datalog'' \<in> {''smtlib2'', ''datalog''}
   \<and> verify (one_file ''blob'' (Inl (OtherException ''UnicodeDecodeError''))) (fixed_solver sat [])
        ''blob'' ''datalog'' 5 False = Inl (OtherException ''UnicodeDecodeError'')"
  by (simp add: verify_def read_text_def one_file_def)

text \<open>
  Claim C3, amended.  \<open>verify\<close> raises the \<open>ValueError\<close> of its argument checks exactly
  when the timeout is not positive or the dialect is neither \<open>smtlib2\<close> nor \<open>datalog\<close>,
  whatever the source is.  For all other arguments it returns a result record, or it
  passes on an exception that a collaborator raised: any exception but \<open>OSError\<close> from
  loading the text, any exception from \<open>z3.Solver()\<close>, \<open>solver.set\<close>, \<open>solver.check\<close>
  or \<open>solver.model().sexpr()\<close>, and any exception but \<open>Z3Exception\<close> from
  \<open>solver.from_string\<close>.
\<close>

theorem verify_argument_errors:
  "(timeout \<le> 0 \<longrightarrow>
      verify f z source dialect timeout learn = Inl (ValueError ''timeout must be positive''))
   \<and> (0 < timeout \<and> dialect \<noteq> ''smtlib2'' \<and> dialect \<noteq> ''datalog'' \<longrightarrow>
      verify f z source dialect timeout learn =
        Inl (ValueError (''dialect must be '' @ [CHR 0x27] @ ''smtlib2'' @ [CHR 0x27] @ '' or ''
                          @ [CHR 0x27] @ ''datalog'' @ [CHR 0x27])))
   \<and> (0 < timeout \<and> (dialect = ''smtlib2'' \<or> dialect = ''datalog'') \<longrightarrow>
        (\<exists>r. verify f z source dialect timeout learn = Inr r)
      \<or> (\<exists>e. verify f z source dialect timeout learn = Inl e
            \<and> (read_text f source = Inl e \<and> e \<noteq> OSError
               \<or> dialect = ''smtlib2''
                 \<and> (\<exists>loaded s. read_text f source = Inr loaded
                      \<and> (Solver z = Inl e
                         \<or> set_param z s ''timeout'' (timeout * 1000) = Inl e
                         \<or> from_string z s loaded = Inl e \<and> e \<noteq> Z3Exception
                         \<or> check z s = Inl e
                         \<or> model_sexpr z s = Inl e)))))"
proof (intro conjI impI)
  assume "timeout \<le> 0"
  then show "verify f z source dialect timeout learn = Inl (ValueError ''timeout must be positive'')"
    by (simp add: verify_def)
next
  assume "0 < timeout \<and> dialect \<noteq> ''smtlib2'' \<and> dialect \<noteq> ''datalog''"
  then show "verify f z source dialect timeout learn =
        Inl (ValueError (''dialect must be '' @ [CHR 0x27] @ ''smtlib2'' @ [CHR 0x27] @ '' or ''
                          @ [CHR 0x27] @ ''datalog'' @ [CHR 0x27]))"
    by (simp add: verify_def)
next
  assume v: "0 < timeout \<and> (dialect = ''smtlib2'' \<or> dialect = ''datalog'')"
  show "(\<exists>r. verify f z source dialect timeout learn = Inr r)
      \<or> (\<exists>e. verify f z source dialect timeout learn = Inl e
            \<and> (read_text f source = Inl e \<and> e \<noteq> OSError
               \<or> dialect = ''smtlib2''
                 \<and> (\<exists>loaded s. read_text f source = Inr loaded
                      \<and> (Solver z = Inl e
                         \<or> set_param z s ''timeout'' (timeout * 1000) = Inl e
                         \<or> from_string z s loaded = Inl e \<and> e \<noteq> Z3Exception
                         \<or> check z s = Inl e
                         \<or> model_sexpr z s = Inl e))))"
    using v unfolding verify_def
    by (auto split: sum.splits option.splits prod.splits)
qed

theorem verify_argument_errors_witness:
  "verify no_files (fixed_solver sat []) ''(query P)'' ''datalog'' 0 False
     = Inl (ValueError ''timeout must be positive'')
   \<and> verify no_files (fixed_solver sat []) ''(query P)'' ''prolog'' 5 False
     = Inl (ValueError (''dialect must be '' @ [CHR 0x27] @ ''smtlib2'' @ [CHR 0x27] @ '' or ''
                          @ [CHR 0x27] @ ''datalog'' @ [CHR 0x27]))
   \<and> (\<exists>r. verify no_files (fixed_solver sat []) ''(query P)'' ''datalog'' 5 False = Inr r)"
proof -
  have a: "verify no_files (fixed_solver sat []) ''(query P)'' ''datalog'' 0 False
     = Inl (ValueError ''timeout must be positive'')"
    using verify_argument_errors[where timeout = 0 and f = no_files and z = "fixed_solver sat []"
        and source = "''(query P)''" and dialect = "''datalog''" and learn = False]
    by simp
  have b: "verify no_files (fixed_solver sat []) ''(query P)'' ''prolog'' 5 False
     = Inl (ValueError (''dialect must be '' @ [CHR 0x27] @ ''smtlib2'' @ [CHR 0x27] @ '' or ''
                          @ [CHR 0x27] @ ''datalog'' @ [CHR 0x27]))"
    using verify_argument_errors[where timeout = 5 and f = no_files and z = "fixed_solver sat []"
        and source = "''(query P)''" and dialect = "''prolog''" and learn = False]
    by simp
  have r: "read_text no_files ''(query P)'' = Inr ''(query P)''"
    by (simp add: read_text_def no_files_def)
  have c: "\<exists>r. verify no_files (fixed_solver sat []) ''(query P)'' ''datalog'' 5 False = Inr r"
    using verify_argument_errors[where timeout = 5 and f = no_files and z = "fixed_solver sat []"
        and source = "''(query P)''" and dialect = "''datalog''" and learn = False] r
    by auto
  show ?thesis using a b c by blast
qed

subsection \<open>The exception handlers\<close>

text \<open>
  Claim C6 says that the solver's exception type is the only one \<open>verify\<close> catches.
  It also catches \<open>OSError\<close>: a source that names a file which cannot be read gives the
  \<open>unknown\<close> result instead of the exception.
\<close>

theorem verify_suppresses_OSError:
  "read_text (one_file ''gone'' (Inl OSError)) ''gone'' = Inl OSError
   \<and> verify (one_file ''gone'' (Inl OSError)) (fixed_solver sat []) ''gone'' ''smtlib2'' 5 False
       = Inr \<lparr>status = ''unknown'', model = None, learned = []\<rparr>"
  by (simp add: verify_def read_text_def one_file_def)

text \<open>
  Claim C6, amended.  For valid arguments \<open>verify\<close> catches two exception types and
  turns each into the \<open>unknown\<close> result: \<open>OSError\<close> raised while the text is loaded, and
  \<open>Z3Exception\<close> raised by \<open>solver.from_string\<close>.  Nothing else is suppressed: every
  other exception from loading or from \<open>solver.from_string\<close>, and every exception from
  \<open>z3.Solver()\<close>, \<open>solver.set\<close>, \<open>solver.check\<close> and \<open>solver.model().sexpr()\<close>, reaches
  the caller unchanged.
\<close>

theorem verify_exception_handling:
  assumes "0 < timeout" and "dialect = ''smtlib2'' \<or> dialect = ''datalog''"
  shows "(read_text f source = Inl e \<longrightarrow>
            verify f z source dialect timeout learn =
              (if e = OSError then Inr \<lparr>status = ''unknown'', model = None, learned = []\<rparr>
               else Inl e))
       \<and> (dialect = ''smtlib2'' \<and> read_text f source = Inr loaded
            \<and> (\<exists>c\<in>set loaded. \<not> is_space c) \<longrightarrow>
            (Solver z = Inl e \<longrightarrow> verify f z source dialect timeout learn = Inl e)
          \<and> (Solver z = Inr sa \<and> set_param z sa ''timeout'' (timeout * 1000) = Inl e \<longrightarrow>
               verify f z source dialect timeout learn = Inl e)
          \<and> (Solver z = Inr sa \<and> set_param z sa ''timeout'' (timeout * 1000) = Inr sb
               \<and> from_string z sb loaded = Inl e \<longrightarrow>
               verify f z source dialect timeout learn =
                 (if e = Z3Exception
                  then Inr \<lparr>status = ''unknown'', model = None, learned = []\<rparr>
                  else Inl e))
          \<and> (Solver z = Inr sa \<and> set_param z sa ''timeout'' (timeout * 1000) = Inr sb
               \<and> from_string z sb loaded = Inr sc \<and> check z sc = Inl e \<longrightarrow>
               verify f z source dialect timeout learn = Inl e)
          \<and> (Solver z = Inr sa \<and> set_param z sa ''timeout'' (timeout * 1000) = Inr sb
               \<and> from_string z sb loaded = Inr sc \<and> check z sc = Inr (sat, sd)
               \<and> model_sexpr z sd = Inl e \<longrightarrow>
               verify f z source dialect timeout learn = Inl e))"
  using assms by (auto simp add: verify_def strip_Nil_iff)

theorem verify_exception_handling_witness:
  "verify (one_file ''blob'' (Inl (OtherException ''UnicodeDecodeError''))) (fixed_solver sat [])
      ''blob'' ''smtlib2'' 5 False = Inl (OtherException ''UnicodeDecodeError'')
   \<and> verify no_files (fixed_solver sat []) ''('' ''smtlib2'' 5 False
      = Inr \<lparr>status = ''unknown'', model = None, learned = []\<rparr>"
proof -
  have t: "0 < (5::int)" by simp
  have d: "''smtlib2'' = ''smtlib2'' \<or> ''smtlib2'' = ''datalog''" by simp
  have a: "verify (one_file ''blob'' (Inl (OtherException ''UnicodeDecodeError''))) (fixed_solver sat [])
      ''blob'' ''smtlib2'' 5 False = Inl (OtherException ''UnicodeDecodeError'')"
    using verify_exception_handling[OF t d,
        where f = "one_file ''blob'' (Inl (OtherException ''UnicodeDecodeError''))"
        and source = "''blob''" and e = "OtherException ''UnicodeDecodeError''"
        and z = "fixed_solver sat []" and learn = False]
    by (simp add: read_text_def one_file_def)
  have b: "verify no_files (fixed_solver sat []) ''('' ''smtlib2'' 5 False
      = Inr \<lparr>status = ''unknown'', model = None, learned = []\<rparr>"
    using verify_exception_handling[OF t d, where f = no_files and source = "''(''"
        and e = Z3Exception and z = "fixed_solver sat []" and learn = False and loaded = "''(''"
        and sa = "[]" and sb = "[]"]
    by (simp add: read_text_def no_files_def fixed_solver_def is_space_def)
  show ?thesis using a b by (rule conjI)
qed

subsection \<open>The solver path\<close>

text \<open>
  Claim C1.  A call in the \<open>smtlib2\<close> dialect that passes the argument checks, whose
  loaded text has a character that is not whitespace, and whose solver calls return, maps
  the result of \<open>solver.check()\<close> as follows: \<open>unsat\<close> gives status \<open>safe\<close> with model
  \<open>None\<close>; \<open>sat\<close> gives status \<open>unsafe\<close> with the text of \<open>solver.model().sexpr()\<close>
  as model (and as the one learned entry when \<open>learn\<close> is set); anything else gives status
  \<open>unknown\<close> with model \<open>None\<close>.
\<close>

theorem verify_smtlib2_outcome:
  assumes "0 < timeout" and "read_text f source = Inr loaded" and "\<exists>c\<in>set loaded. \<not> is_space c"
    and "Solver z = Inr sa" and "set_param z sa ''timeout'' (timeout * 1000) = Inr sb"
    and "from_string z sb loaded = Inr sc" and "check z sc = Inr (chk, sd)"
    and "chk = sat \<Longrightarrow> model_sexpr z sd = Inr m"
  shows "verify f z source ''smtlib2'' timeout learn =
           Inr (case chk of
                  unsat \<Rightarrow> \<lparr>status = ''safe'', model = None, learned = []\<rparr>
                | sat \<Rightarrow> \<lparr>status = ''unsafe'', model = Some m, learned = (if learn then [m] else [])\<rparr>
                | unknown \<Rightarrow> \<lparr>status = ''unknown'', model = None, learned = []\<rparr>)"
  using assms by (cases chk) (auto simp add: verify_def strip_Nil_iff)

theorem verify_smtlib2_outcome_witness:
  "verify no_files (fixed_solver unsat []) ''(assert false)'' ''smtlib2'' 5 True
     = Inr \<lparr>status = ''safe'', model = None, learned = []\<rparr>
   \<and> verify no_files (fixed_solver sat ''((x 1))'') ''(assert (> x 0))'' ''smtlib2'' 5 True
     = Inr \<lparr>status = ''unsafe'', model = Some ''((x 1))'', learned = [''((x 1))'']\<rparr>
   \<and> verify no_files (fixed_solver unknown []) ''(assert (> x 0))'' ''smtlib2'' 5 True
     = Inr \<lparr>status = ''unknown'', model = None, learned = []\<rparr>"
proof -
  have a: "verify no_files (fixed_solver unsat []) ''(assert false)'' ''smtlib2'' 5 True
     = Inr \<lparr>status = ''safe'', model = None, learned = []\<rparr>"
    using verify_smtlib2_outcome[where timeout = 5 and f = no_files and source = "''(assert false)''"
        and loaded = "''(assert false)''" and z = "fixed_solver unsat []" and sa = "[]"
        and sb = "[]" and sc = "''(assert false)''" and chk = unsat
        and sd = "''(assert false)''" and m = "[]" and learn = True]
    by (simp add: read_text_def no_files_def fixed_solver_def is_space_def)
  have b: "verify no_files (fixed_solver sat ''((x 1))'') ''(assert (> x 0))'' ''smtlib2'' 5 True
     = Inr \<lparr>status = ''unsafe'', model = Some ''((x 1))'', learned = [''((x 1))'']\<rparr>"
    using verify_smtlib2_outcome[where timeout = 5 and f = no_files and source = "''(assert (> x 0))''"
        and loaded = "''(assert (> x 0))''" and z = "fixed_solver sat ''((x 1))''" and sa = "[]"
        and sb = "[]" and sc = "''(assert (> x 0))''" and chk = sat
        and sd = "''(assert (> x 0))''" and m = "''((x 1))''" and learn = True]
    by (simp add: read_text_def no_files_def fixed_solver_def is_space_def)
  have c: "verify no_files (fixed_solver unknown []) ''(assert (> x 0))'' ''smtlib2'' 5 True
     = Inr \<lparr>status = ''unknown'', model = None, learned = []\<rparr>"
    using verify_smtlib2_outcome[where timeout = 5 and f = no_files and source = "''(assert (> x 0))''"
        and loaded = "''(assert (> x 0))''" and z = "fixed_solver unknown []" and sa = "[]"
        and sb = "[]" and sc = "''(assert (> x 0))''" and chk = unknown
        and sd = "''(assert (> x 0))''" and m = "[]" and learn = True]
    by (simp add: read_text_def no_files_def fixed_solver_def is_space_def)
  show ?thesis using a b c by simp
qed

subsection \<open>The Datalog path\<close>

text \<open>
  The verdict for a well-formed Datalog text: the first queried name is declared, so the
  text is not blank and \<open>_datalog_status\<close> decides by membership in the rule heads.
\<close>

lemma verify_datalog_wellformed:
  assumes "0 < timeout" and "read_text f source = Inr loaded"
    and "findall QUERY_RE loaded = pred # qs" and "pred \<in> set (findall DCL_RE loaded)"
  shows "verify f z source ''datalog'' timeout learn =
           Inr (if pred \<in> set (findall RULE_RE loaded)
                then \<lparr>status = ''unsafe'',
                      model = Some (''(define-fun '' @ pred @ '' () Bool true)''),
                      learned = (if learn then [''(define-fun '' @ pred @ '' () Bool true)''] else [])\<rparr>
                else \<lparr>status = ''safe'', model = None, learned = []\<rparr>)"
proof -
  have "findall DCL_RE loaded \<noteq> []" using assms(4) by auto
  then have nb: "strip loaded \<noteq> []" using DCL_blank by blast
  have ds: "datalog_status loaded =
      (if pred \<in> set (findall RULE_RE loaded)
       then Some \<lparr>status = ''unsafe'',
                  model = Some (''(define-fun '' @ pred @ '' () Bool true)''),
                  learned = [''(define-fun '' @ pred @ '' () Bool true)'']\<rparr>
       else Some \<lparr>status = ''safe'', model = None, learned = []\<rparr>)"
    using assms(3,4) by (auto simp add: datalog_status_def Let_def)
  show ?thesis using assms(1,2) nb ds by (simp add: verify_def)
qed

text \<open>
  Claim C2 says that the model of an \<open>unsafe\<close> Datalog verdict consists of two fact
  assertions.  The model is the text of one f-string: for
  \<open>(declare-rel P ()) (rule (P)) (query P)\<close> it is \<open>(define-fun P () Bool true)\<close>, in
  which \<open>(define-fun\<close> occurs once.  The second f-string of the source is the entry of
  \<open>learned\<close>.
\<close>

theorem datalog_model_single_assertion:
  "verify no_files (fixed_solver unknown []) ''(declare-rel P ()) (rule (P)) (query P)'' ''datalog'' 5 False
     = Inr \<lparr>status = ''unsafe'', model = Some ''(define-fun P () Bool true)'', learned = []\<rparr>
   \<and> occurrences ''(define-fun'' ''(define-fun P () Bool true)'' = 1"
  by code_simp

text \<open>
  Claim C2, amended.  For a call in the \<open>datalog\<close> dialect with valid timeout, at least
  one declaration and a first queried name \<open>pred\<close> that is declared: if \<open>pred\<close> is the
  head of some rule, the result has status \<open>unsafe\<close>, the model is the single assertion
  \<open>(define-fun pred () Bool true)\<close>, which contains the name, and \<open>learned\<close> holds that
  same text when \<open>learn\<close> is set and is empty otherwise; if not, the result has status
  \<open>safe\<close>, model \<open>None\<close> and \<open>learned = []\<close>.
\<close>

theorem datalog_verdict:
  assumes "0 < timeout" and "read_text f source = Inr loaded"
    and "findall DCL_RE loaded \<noteq> []"
    and "findall QUERY_RE loaded = pred # qs" and "pred \<in> set (findall DCL_RE loaded)"
  shows "verify f z source ''datalog'' timeout learn =
           Inr (if pred \<in> set (findall RULE_RE loaded)
                then \<lparr>status = ''unsafe'',
                      model = Some (''(define-fun '' @ pred @ '' () Bool true)''),
                      learned = (if learn then [''(define-fun '' @ pred @ '' () Bool true)''] else [])\<rparr>
                else \<lparr>status = ''safe'', model = None, learned = []\<rparr>)"
  using assms(1,2,4,5) by (rule verify_datalog_wellformed)

theorem datalog_verdict_witness:
  "verify no_files (fixed_solver unknown []) ''(declare-rel P ()) (rule (P)) (query P)'' ''datalog'' 5 True
     = Inr \<lparr>status = ''unsafe'', model = Some ''(define-fun P () Bool true)'',
            learned = [''(define-fun P () Bool true)'']\<rparr>
   \<and> verify no_files (fixed_solver unknown []) ''(declare-rel P ()) (query P)'' ''datalog'' 5 True
     = Inr \<lparr>status = ''safe'', model = None, learned = []\<rparr>"
proof -
  have t: "0 < (5::int)" by simp
  have r1: "read_text no_files ''(declare-rel P ()) (rule (P)) (query P)''
              = Inr ''(declare-rel P ()) (rule (P)) (query P)''"
    by (simp add: read_text_def no_files_def)
  have n1: "findall DCL_RE ''(declare-rel P ()) (rule (P)) (query P)'' \<noteq> []" by code_simp
  have q1: "findall QUERY_RE ''(declare-rel P ()) (rule (P)) (query P)'' = ''P'' # []" by code_simp
  have d1: "''P'' \<in> set (findall DCL_RE ''(declare-rel P ()) (rule (P)) (query P)'')" by code_simp
  have h1: "''P'' \<in> set (findall RULE_RE ''(declare-rel P ()) (rule (P)) (query P)'')" by code_simp
  have r2: "read_text no_files ''(declare-rel P ()) (query P)'' = Inr ''(declare-rel P ()) (query P)''"
    by (simp add: read_text_def no_files_def)
  have n2: "findall DCL_RE ''(declare-rel P ()) (query P)'' \<noteq> []" by code_simp
  have q2: "findall QUERY_RE ''(declare-rel P ()) (query P)'' = ''P'' # []" by code_simp
  have d2: "''P'' \<in> set (findall DCL_RE ''(declare-rel P ()) (query P)'')" by code_simp
  have h2: "''P'' \<notin> set (findall RULE_RE ''(declare-rel P ()) (query P)'')" by code_simp
  have a: "verify no_files (fixed_solver unknown []) ''(declare-rel P ()) (rule (P)) (query P)'' ''datalog'' 5 True
     = Inr \<lparr>status = ''unsafe'', model = Some ''(define-fun P () Bool true)'',
            learned = [''(define-fun P () Bool true)'']\<rparr>"
    using datalog_verdict[OF t r1 n1 q1 d1, where z = "fixed_solver unknown []" and learn = True] h1
    by simp
  have b: "verify no_files (fixed_solver unknown []) ''(declare-rel P ()) (query P)'' ''datalog'' 5 True
     = Inr \<lparr>status = ''safe'', model = None, learned = []\<rparr>"
    using datalog_verdict[OF t r2 n2 q2 d2, where z = "fixed_solver unknown []" and learn = True] h2
    by simp
  show ?thesis using a b by (rule conjI)
qed




subsection \<open>Malformed and blank input\<close>

text \<open>
  Claim C4.  A call in the \<open>datalog\<close> dialect that passes the argument checks and whose
  loaded text is structurally malformed (no \<open>declare-rel\<close> form, no \<open>query\<close> form, or a
  first queried name that is not declared) returns status \<open>unknown\<close> with model \<open>None\<close>
  and nothing learned; it does not raise.
\<close>

theorem datalog_malformed_unknown:
  assumes "0 < timeout" and "read_text f source = Inr text"
    and "findall DCL_RE text = [] \<or> findall QUERY_RE text = []
         \<or> hd (findall QUERY_RE text) \<notin> set (findall DCL_RE text)"
  shows "verify f z source ''datalog'' timeout learn = Inr \<lparr>status = ''unknown'', model = None, learned = []\<rparr>"
  using assms by (auto simp add: verify_def datalog_status_def Let_def hd_conv_nth)

theorem datalog_malformed_unknown_witness:
  "hd (findall QUERY_RE ''(declare-rel P ()) (rule (Q)) (query Q)'')
     \<notin> set (findall DCL_RE ''(declare-rel P ()) (rule (Q)) (query Q)'')
   \<and> verify no_files (fixed_solver sat ''m'') ''(declare-rel P ()) (rule (Q)) (query Q)'' ''datalog'' 5 True
     = Inr \<lparr>status = ''unknown'', model = None, learned = []\<rparr>"
proof -
  have t: "0 < (5::int)" by simp
  have r: "read_text no_files ''(declare-rel P ()) (rule (Q)) (query Q)''
             = Inr ''(declare-rel P ()) (rule (Q)) (query Q)''"
    by (simp add: read_text_def no_files_def)
  have m: "hd (findall QUERY_RE ''(declare-rel P ()) (rule (Q)) (query Q)'')
     \<notin> set (findall DCL_RE ''(declare-rel P ()) (rule (Q)) (query Q)'')"
    by code_simp
  then have m': "findall DCL_RE ''(declare-rel P ()) (rule (Q)) (query Q)'' = []
     \<or> findall QUERY_RE ''(declare-rel P ()) (rule (Q)) (query Q)'' = []
     \<or> hd (findall QUERY_RE ''(declare-rel P ()) (rule (Q)) (query Q)'')
     \<notin> set (findall DCL_RE ''(declare-rel P ()) (rule (Q)) (query Q)'')" by blast
  show ?thesis using m datalog_malformed_unknown[OF t r m'] by blast
qed

text \<open>
  Claim C5.  In either dialect, a call that passes the argument checks and whose loaded
  text is empty or has whitespace characters only returns
  \<open>{status: unknown, model: None, learned: []}\<close>.  The result is the same for every
  solver, so neither the solver nor the Datalog heuristic contributes to it.
\<close>

theorem blank_source_unknown:
  assumes "0 < timeout" and "dialect = ''smtlib2'' \<or> dialect = ''datalog''"
    and "read_text f source = Inr text" and "\<forall>c\<in>set text. is_space c"
  shows "verify f z source dialect timeout learn = Inr \<lparr>status = ''unknown'', model = None, learned = []\<rparr>"
  using assms by (auto simp add: verify_def strip_Nil_iff)

theorem blank_source_unknown_witness:
  "verify no_files (fixed_solver sat ''m'') '''' ''smtlib2'' 5 False
     = Inr \<lparr>status = ''unknown'', model = None, learned = []\<rparr>
   \<and> verify no_files (fixed_solver sat ''m'') ''   '' ''datalog'' 5 False
     = Inr \<lparr>status = ''unknown'', model = None, learned = []\<rparr>"
proof -
  have t: "0 < (5::int)" by simp
  have r1: "read_text no_files '''' = Inr ''''" by (simp add: read_text_def no_files_def)
  have r2: "read_text no_files ''   '' = Inr ''   ''" by (simp add: read_text_def no_files_def)
  have b1: "\<forall>c\<in>set ''''. is_space c" by simp
  have b2: "\<forall>c\<in>set ''   ''. is_space c" by (simp add: is_space_def)
  have d1: "''smtlib2'' = ''smtlib2'' \<or> ''smtlib2'' = ''datalog''" by simp
  have d2: "''datalog'' = ''smtlib2'' \<or> ''datalog'' = ''datalog''" by simp
  show ?thesis
    using blank_source_unknown[OF t d1 r1 b1, where z = "fixed_solver sat ''m''" and learn = False]
      blank_source_unknown[OF t d2 r2 b2, where z = "fixed_solver sat ''m''" and learn = False]
    by (rule conjI)
qed

subsection \<open>The learned entries\<close>

lemma datalog_status_unsafe:
  "datalog_status text = Some r \<Longrightarrow> status r = ''unsafe'' \<Longrightarrow> \<exists>m. model r = Some m \<and> m \<in> set (learned r)"
  unfolding datalog_status_def Let_def
  by (auto split: if_splits)

text \<open>
  Claim C7.  With \<open>learn=False\<close> every returned result has the empty list as its
  \<open>learned\<close> field, whatever the status and whatever the heuristic or the solver path
  produced.
\<close>

theorem learn_disabled_learned_empty:
  "verify f z source dialect timeout False = Inr r \<Longrightarrow> learned r = []"
  unfolding verify_def
  by (auto split: if_splits sum.splits option.splits prod.splits)

theorem learn_disabled_learned_empty_witness:
  "verify no_files (fixed_solver sat ''m'') ''(declare-rel P ()) (rule (P)) (query P)'' ''datalog'' 5 False
     = Inr \<lparr>status = ''unsafe'', model = Some ''(define-fun P () Bool true)'', learned = []\<rparr>
   \<and> learned \<lparr>status = ''unsafe'', model = Some ''(define-fun P () Bool true)'', learned = []\<rparr> = []"
proof -
  have h: "verify no_files (fixed_solver sat ''m'') ''(declare-rel P ()) (rule (P)) (query P)'' ''datalog'' 5 False
     = Inr \<lparr>status = ''unsafe'', model = Some ''(define-fun P () Bool true)'', learned = []\<rparr>"
    by code_simp
  show ?thesis using h learn_disabled_learned_empty[OF h] by simp
qed

text \<open>
  Claim C8.  With \<open>learn=True\<close>, a result of status \<open>unsafe\<close> in either dialect has a
  model, and that model is an entry of its \<open>learned\<close> field.
\<close>

theorem learn_enabled_unsafe_learned:
  "verify f z source dialect timeout True = Inr r \<Longrightarrow> status r = ''unsafe'' \<Longrightarrow>
     \<exists>m. model r = Some m \<and> m \<in> set (learned r)"
  unfolding verify_def
  by (auto split: if_splits sum.splits option.splits prod.splits dest: datalog_status_unsafe)

theorem learn_enabled_unsafe_learned_witness:
  "verify no_files (fixed_solver sat ''((x 1))'') ''(assert (> x 0))'' ''smtlib2'' 5 True
     = Inr \<lparr>status = ''unsafe'', model = Some ''((x 1))'', learned = [''((x 1))'']\<rparr>
   \<and> (\<exists>m. model \<lparr>status = ''unsafe'', model = Some ''((x 1))'', learned = [''((x 1))'']\<rparr> = Some m
          \<and> m \<in> set (learned \<lparr>status = ''unsafe'', model = Some ''((x 1))'', learned = [''((x 1))'']\<rparr>))"
proof -
  have h: "verify no_files (fixed_solver sat ''((x 1))'') ''(assert (> x 0))'' ''smtlib2'' 5 True
     = Inr \<lparr>status = ''unsafe'', model = Some ''((x 1))'', learned = [''((x 1))'']\<rparr>"
    by code_simp
  have s: "status \<lparr>status = ''unsafe'', model = Some ''((x 1))'', learned = [''((x 1))'']\<rparr> = ''unsafe''"
    by simp
  show ?thesis using h learn_enabled_unsafe_learned[OF h s] by simp
qed

end
